theory Spec2Isabelle
  imports Main
begin

section \<open>Errors\<close>

text \<open>
  A Go \<^verbatim>\<open>error\<close> value; the \<^verbatim>\<open>nil\<close> error is \<open>None\<close> of \<open>error option\<close>.
  \<open>EOF\<close> and \<open>ErrUnexpectedEOF\<close> are the sentinels of package \<^verbatim>\<open>io\<close>,
  \<open>StopReadingErr\<close> is the sentinel declared by package \<^verbatim>\<open>main\<close>,
  \<open>ErrorsNew\<close> is \<^verbatim>\<open>errors.New\<close>, \<open>StatusCodeErr\<close> is
  \<^verbatim>\<open>fmt.Errorf("http download failed with status code %d", c)\<close>,
  \<open>InvalidStatusCode\<close> is \<^verbatim>\<open>fmt.Errorf("invalid status code: %d", c)\<close>,
  \<open>UrlParseErr\<close> is \<^verbatim>\<open>fmt.Errorf("failed to parse url: %s", err)\<close>.
  The remaining constructors stand for errors returned by the network, the file
  system and the rate limiter.
\<close>

datatype error =
    EOF
  | ErrUnexpectedEOF
  | StopReadingErr
  | ErrorsNew string
  | StatusCodeErr int
  | InvalidStatusCode int
  | UrlParseErr error
  | NetErr string
  | OSErr string
  | RateErr int

text \<open>\<^verbatim>\<open>errors.Is(err, target)\<close> for the unwrapped errors above.\<close>

definition errors_Is :: "error option \<Rightarrow> error \<Rightarrow> bool" where
  "errors_Is err target = (err = Some target)"

section \<open>Status values\<close>

text \<open>Package \<^verbatim>\<open>downloads\<close>: \<^verbatim>\<open>type Status string\<close>.\<close>

type_synonym Status = string

definition StatusQueued :: Status where "StatusQueued = ''queued''"
definition StatusPaused :: Status where "StatusPaused = ''paused''"
definition StatusStopped :: Status where "StatusStopped = ''stopped''"
definition StatusStarted :: Status where "StatusStarted = ''started''"
definition StatusCompleted :: Status where "StatusCompleted = ''completed''"
definition StatusFailed :: Status where "StatusFailed = ''failed''"

text \<open>Package \<^verbatim>\<open>main\<close>: \<^verbatim>\<open>type Status int\<close> and its five variables.\<close>

type_synonym main_Status = int

definition Waiting :: main_Status where "Waiting = 0"
definition Started :: main_Status where "Started = 1"
definition Paused :: main_Status where "Paused = 2"
definition Completed :: main_Status where "Completed = 2"
definition Error_status :: main_Status where "Error_status = 3"

section \<open>Regular expressions and \<^verbatim>\<open>parseContentRange\<close>\<close>

text \<open>
  The fragment of Go's \<^verbatim>\<open>regexp\<close> syntax that \<^verbatim>\<open>contentRangeRe\<close> uses:
  literal text, \<^verbatim>\<open>\d+\<close>, concatenation, alternation, \<^verbatim>\<open>?\<close>, named groups,
  \<^verbatim>\<open>^\<close> and \<^verbatim>\<open>$\<close>.
\<close>

datatype re =
    Lit string
  | Digits
  | Seq re re
  | Alt re re
  | Opt re
  | Cap string re
  | BeginText
  | EndText

definition is_digit :: "char \<Rightarrow> bool" where
  "is_digit c = (c \<in> set ''0123456789'')"

text \<open>
  A matcher state is the position reached, the input still to read and the groups
  captured so far. \<open>ms r st\<close> lists every way \<open>r\<close> matches from \<open>st\<close>, in the
  order of preference of Go's leftmost-first matching: the first alternative before
  the second, a greedy \<^verbatim>\<open>?\<close> or \<^verbatim>\<open>+\<close> before a shorter match.
\<close>

type_synonym mstate = "nat \<times> string \<times> (string \<rightharpoonup> string)"

fun ms :: "re \<Rightarrow> mstate \<Rightarrow> mstate list" where
  "ms (Lit l) (p, s, c) =
     (if take (length l) s = l then [(p + length l, drop (length l) s, c)] else [])"
| "ms Digits (p, s, c) =
     map (\<lambda>k. (p + k, drop k s, c)) (rev [1 ..< Suc (length (takeWhile is_digit s))])"
| "ms (Seq a b) st = concat (map (ms b) (ms a st))"
| "ms (Alt a b) st = ms a st @ ms b st"
| "ms (Opt a) st = ms a st @ [st]"
| "ms (Cap n a) (p, s, c) =
     map (\<lambda>(p', s', c'). (p', s', c'(n \<mapsto> take (p' - p) s))) (ms a (p, s, c))"
| "ms BeginText (p, s, c) = (if p = 0 then [(p, s, c)] else [])"
| "ms EndText (p, s, c) = (if s = [] then [(p, s, c)] else [])"

fun cap_names :: "re \<Rightarrow> string list" where
  "cap_names (Seq a b) = cap_names a @ cap_names b"
| "cap_names (Alt a b) = cap_names a @ cap_names b"
| "cap_names (Opt a) = cap_names a"
| "cap_names (Cap n a) = n # cap_names a"
| "cap_names _ = []"

text \<open>\<^verbatim>\<open>r.SubexpNames()\<close>: the name of group 0 is the empty string.\<close>

definition SubexpNames :: "re \<Rightarrow> string list" where
  "SubexpNames r = [] # cap_names r"

text \<open>
  \<^verbatim>\<open>r.FindStringSubmatch(s)\<close>: the leftmost match, as the text of the whole match
  followed by the text of each group, the empty string for a group that did not take
  part; \<^verbatim>\<open>nil\<close> (here the empty list) when there is no match.
\<close>

fun find_from :: "re \<Rightarrow> string \<Rightarrow> nat list \<Rightarrow> string list" where
  "find_from r s [] = []"
| "find_from r s (start # starts) =
     (case ms r (start, drop start s, Map.empty) of
        [] \<Rightarrow> find_from r s starts
      | (p', s', c) # _ \<Rightarrow>
          take (p' - start) (drop start s)
            # map (\<lambda>n. case c n of None \<Rightarrow> [] | Some v \<Rightarrow> v) (cap_names r))"

definition FindStringSubmatch :: "re \<Rightarrow> string \<Rightarrow> string list" where
  "FindStringSubmatch r s = find_from r s [0 ..< Suc (length s)]"

text \<open>
  \<^verbatim>\<open>^bytes (?:(?P<range_start>\d+)?-(?P<range_end>\d+)?|\*)(?:/(?P<size>\d+)|/\*$)?\<close>
\<close>

definition contentRangeRe :: re where
  "contentRangeRe =
     Seq BeginText
    (Seq (Lit ''bytes '')
    (Seq (Alt (Seq (Opt (Cap ''range_start'' Digits))
              (Seq (Lit ''-'') (Opt (Cap ''range_end'' Digits))))
              (Lit ''*''))
         (Opt (Alt (Seq (Lit ''/'') (Cap ''size'' Digits))
                   (Seq (Lit ''/*'') EndText)))))"

definition reGetNamedGroups :: "re \<Rightarrow> string list \<Rightarrow> (string \<rightharpoonup> string)" where
  "reGetNamedGroups r match =
     fold (\<lambda>(i, name) result.
             if i \<noteq> 0 \<and> name \<noteq> [] then result(name \<mapsto> match ! i) else result)
          (enumerate 0 (SubexpNames r)) Map.empty"

text \<open>
  \<^verbatim>\<open>strconv.Atoi\<close> with the error dropped, where \<^verbatim>\<open>int\<close> has 64 bits: the value of
  an optionally signed decimal numeral, clamped to the nearest representable value
  when it is out of range, and 0 for every other string.
\<close>

definition digits_val :: "string \<Rightarrow> int" where
  "digits_val s = foldl (\<lambda>a c. 10 * a + (int (of_char c) - 48)) 0 s"

definition unsigned_ok :: "string \<Rightarrow> bool" where
  "unsigned_ok s = (s \<noteq> [] \<and> list_all is_digit s)"

definition Atoi :: "string \<Rightarrow> int" where
  "Atoi s =
     (case s of
        [] \<Rightarrow> 0
      | c # r \<Rightarrow>
          if c = CHR ''+'' then (if unsigned_ok r then min (digits_val r) (2 ^ 63 - 1) else 0)
          else if c = CHR ''-'' then (if unsigned_ok r then max (- digits_val r) (- (2 ^ 63)) else 0)
          else if unsigned_ok s then min (digits_val s) (2 ^ 63 - 1)
          else 0)"

record parseContentRangeResult =
  rangeStart :: int
  rangeEnd :: int
  size_r :: int

definition parseContentRange :: "string \<Rightarrow> error + parseContentRangeResult" where
  "parseContentRange s =
     (let match = FindStringSubmatch contentRangeRe s in
      if length match = 0 then Inl (ErrorsNew ''invalid content-range format'')
      else
        let vals = reGetNamedGroups contentRangeRe match;
            result = \<lparr>rangeStart = 0, rangeEnd = 0, size_r = 0\<rparr>;
            result = (case vals ''range_start'' of
                        Some v \<Rightarrow> result\<lparr>rangeStart := Atoi v\<rparr>
                      | None \<Rightarrow> result);
            result = (case vals ''range_end'' of
                        Some v \<Rightarrow> result\<lparr>rangeEnd := Atoi v\<rparr>
                      | None \<Rightarrow> result\<lparr>rangeEnd := - 1\<rparr>);
            result = (case vals ''size'' of
                        Some v \<Rightarrow> result\<lparr>size_r := Atoi v\<rparr>
                      | None \<Rightarrow> result\<lparr>size_r := - 1\<rparr>)
        in Inr result)"

section \<open>The bound-length reader\<close>

text \<open>
  \<^verbatim>\<open>FixedLengthReader.Read\<close> (the same text in both packages). The first argument
  is the field \<^verbatim>\<open>length\<close>, the second what the wrapped reader returns for this call:
  a byte count, which the \<^verbatim>\<open>io.Reader\<close> contract keeps non-negative, and an error.
  The result is the pair returned and the new value of \<^verbatim>\<open>length\<close>.
\<close>

type_synonym src_read = "nat \<times> error option"
type_synonym read_result = "int \<times> error option"

definition FixedLengthReader_Read :: "int \<Rightarrow> src_read \<Rightarrow> read_result \<times> int" where
  "FixedLengthReader_Read len src =
     (let n = int (fst src);
          err = snd src;
          n = (if n > len then len else n);
          len = len - n;
          err = (if errors_Is err EOF \<and> len > 0 then Some ErrUnexpectedEOF else err);
          err = (if len \<le> 0 then Some EOF else err)
      in ((n, err), len))"

text \<open>Successive calls of \<open>Read\<close> on one reader, over what the source returns each time.\<close>

fun FixedLengthReader_reads :: "int \<Rightarrow> src_read list \<Rightarrow> read_result list" where
  "FixedLengthReader_reads len [] = []"
| "FixedLengthReader_reads len (src # srcs) =
     (case FixedLengthReader_Read len src of
        (res, len') \<Rightarrow> res # FixedLengthReader_reads len' srcs)"

text \<open>The value of \<^verbatim>\<open>length\<close> after successive calls of \<open>Read\<close>.\<close>

fun FixedLengthReader_left :: "int \<Rightarrow> src_read list \<Rightarrow> int" where
  "FixedLengthReader_left len [] = len"
| "FixedLengthReader_left len (src # srcs) =
     FixedLengthReader_left (snd (FixedLengthReader_Read len src)) srcs"

section \<open>The rate-limited reader\<close>

text \<open>
  \<^verbatim>\<open>Limiter.WaitN(context.Background(), n)\<close> of \<^verbatim>\<open>golang.org/x/time/rate\<close>, without
  the passing of time: with a background context it fails exactly when \<open>n\<close> exceeds
  the burst size and the limit is not \<^verbatim>\<open>rate.Inf\<close>. Nothing else of the limit is
  read when no time passes, so a limiter is kept as the pair of whether its limit is
  \<^verbatim>\<open>rate.Inf\<close> and its burst size; the \<^verbatim>\<open>float64\<close> value of a finite limit is not
  represented.
\<close>

type_synonym Limiter = "bool \<times> int"

definition WaitN :: "bool \<Rightarrow> int \<Rightarrow> int \<Rightarrow> error option" where
  "WaitN limit_is_Inf burst n =
     (if n > burst \<and> \<not> limit_is_Inf then Some (RateErr n) else None)"

text \<open>
  \<^verbatim>\<open>NewSpeedLimiter(bytesPerSec)\<close>: the limit is \<^verbatim>\<open>rate.Inf\<close> when \<open>bytesPerSec\<close>
  is 0 and the finite \<^verbatim>\<open>rate.Limit(bytesPerSec)\<close> otherwise; the burst size is
  \<open>bytesPerSec\<close>.
\<close>

definition NewSpeedLimiter :: "int \<Rightarrow> Limiter" where
  "NewSpeedLimiter bytesPerSec = (bytesPerSec = 0, bytesPerSec)"

text \<open>\<^verbatim>\<open>RateLimitedIO.Read\<close> over the result of the wrapped reader.\<close>

definition RateLimitedIO_Read :: "Limiter \<Rightarrow> read_result \<Rightarrow> read_result" where
  "RateLimitedIO_Read limiter res =
     (case res of
        (n, Some e) \<Rightarrow> (n, Some e)
      | (n, None) \<Rightarrow> (n, WaitN (fst limiter) (snd limiter) n))"

section \<open>HTTP and the file system\<close>

text \<open>
  A request carries its method, its URL and, when the header is set, the offset \<open>d\<close>
  of \<^verbatim>\<open>Range: bytes=d-\<close>. A response carries the fields and headers the code reads;
  \<open>Body\<close> lists what \<^verbatim>\<open>resp.Body.Read\<close> returns call by call; a loop that asks for
  a read past the end of that list has not returned (it is still blocked in the read).
\<close>

record http_Request =
  Method :: string
  ReqURL :: string
  Range :: "int option"

record http_Response =
  StatusCode :: int
  ContentLength :: int
  ContentRange :: string
  ContentDisposition :: string
  AcceptRanges :: string
  Body :: "src_read list"

text \<open>
  An open \<^verbatim>\<open>*os.File\<close>: the outcomes of its successive \<^verbatim>\<open>Write\<close> calls; a write
  past the end of the list succeeds.
\<close>

type_synonym os_File = "error option list"

text \<open>
  What lies outside the program: \<^verbatim>\<open>http.NewRequest\<close> (which fails on a malformed
  URL), \<^verbatim>\<open>http.DefaultClient.Do\<close>, \<^verbatim>\<open>mime.ParseMediaType\<close> (\<open>None\<close> when it returns
  an error, otherwise the value of \<^verbatim>\<open>params["filename"]\<close>), \<^verbatim>\<open>url.Parse\<close> followed
  by \<^verbatim>\<open>path.Base\<close> of the path, \<^verbatim>\<open>os.OpenFile\<close> and \<^verbatim>\<open>File.Seek\<close>.
\<close>

record env =
  NewRequest :: "string \<Rightarrow> error option"
  Do :: "http_Request \<Rightarrow> error + http_Response"
  ParseMediaType :: "string \<Rightarrow> string option"
  url_Parse_Base :: "string \<Rightarrow> error + string"
  OpenFile :: "string \<Rightarrow> error + os_File"
  Seek :: "string \<Rightarrow> int \<Rightarrow> error option"

section \<open>\<^verbatim>\<open>HttpDownloadFile\<close>\<close>

text \<open>
  The struct, without its pointer to the owning task (the task is passed where the
  code follows the pointer). \<open>rateLimiter\<close> is the limiter of the current transfer,
  \<open>file_f\<close> the open file, both \<open>None\<close> for \<^verbatim>\<open>nil\<close>. Go's \<^verbatim>\<open>int\<close> is modelled by
  \<open>int\<close>: the byte counts stay far from 64-bit overflow.
\<close>

record HttpDownloadFile =
  Id_f :: nat
  Name :: string
  Downloaded :: int
  Total :: int
  Path :: string
  URL :: string
  err :: "error option"
  status :: Status
  rateLimit :: int
  rateLimiter :: "Limiter option"
  resumable :: bool
  partSize :: int
  file_f :: "os_File option"
  partial_f :: bool

definition HttpDownloadFile_setError :: "HttpDownloadFile \<Rightarrow> error option \<Rightarrow> HttpDownloadFile" where
  "HttpDownloadFile_setError f e =
     (let f = f\<lparr>err := e\<rparr> in
      if e \<noteq> None then f\<lparr>status := StatusFailed\<rparr> else f)"

definition makePartialRequest :: "env \<Rightarrow> HttpDownloadFile \<Rightarrow> error + http_Response" where
  "makePartialRequest ev f =
     (case NewRequest ev (URL f) of
        Some e \<Rightarrow> Inl e
      | None \<Rightarrow> Do ev \<lparr>Method = ''GET'', ReqURL = URL f, Range = Some (Downloaded f)\<rparr>)"

definition makeRequest :: "env \<Rightarrow> HttpDownloadFile \<Rightarrow> error + http_Response" where
  "makeRequest ev f =
     (case NewRequest ev (URL f) of
        Some e \<Rightarrow> Inl e
      | None \<Rightarrow> Do ev \<lparr>Method = ''GET'', ReqURL = URL f, Range = None\<rparr>)"

definition makeHeadRequest :: "env \<Rightarrow> HttpDownloadFile \<Rightarrow> error + http_Response" where
  "makeHeadRequest ev f =
     (case NewRequest ev (URL f) of
        Some e \<Rightarrow> Inl e
      | None \<Rightarrow> Do ev \<lparr>Method = ''HEAD'', ReqURL = URL f, Range = None\<rparr>)"

text \<open>\<^verbatim>\<open>http.StatusPartialContent\<close>\<close>

definition StatusPartialContent :: int where
  "StatusPartialContent = 206"

definition parsePartialResponse ::
  "HttpDownloadFile \<Rightarrow> http_Response \<Rightarrow> error option \<times> HttpDownloadFile" where
  "parsePartialResponse f resp =
     (if StatusCode resp \<noteq> StatusPartialContent then (Some (StatusCodeErr (StatusCode resp)), f)
      else case parseContentRange (ContentRange resp) of
             Inl e \<Rightarrow> (Some e, f)
           | Inr parseResult \<Rightarrow> (None, f\<lparr>Total := size_r parseResult\<rparr>))"

definition parseResponse ::
  "env \<Rightarrow> HttpDownloadFile \<Rightarrow> http_Response \<Rightarrow> error option \<times> HttpDownloadFile" where
  "parseResponse ev f resp =
     (if StatusCode resp \<noteq> StatusPartialContent then parsePartialResponse f resp
      else if StatusCode resp < 200 \<or> StatusCode resp \<ge> 300
        then (Some (StatusCodeErr (StatusCode resp)), f)
      else
        let f = (if ContentDisposition resp \<noteq> []
                 then (case ParseMediaType ev (ContentDisposition resp) of
                         Some filename \<Rightarrow> f\<lparr>Name := filename\<rparr>
                       | None \<Rightarrow> f)
                 else f);
            named = (if Path f = []
                     then (case url_Parse_Base ev (URL f) of
                             Inl e \<Rightarrow> Inl (UrlParseErr e)
                           | Inr base \<Rightarrow> Inr (f\<lparr>Name := base\<rparr>))
                     else Inr f)
        in case named of
             Inl e \<Rightarrow> (Some e, f)
           | Inr f \<Rightarrow>
               let f = (if AcceptRanges resp = ''bytes'' then f\<lparr>resumable := True\<rparr> else f);
                   f = f\<lparr>Total := ContentLength resp\<rparr>;
                   f = f\<lparr>Downloaded := 0\<rparr>;
                   f = f\<lparr>partSize := Total f\<rparr>
               in (None, f))"

definition makeFile :: "env \<Rightarrow> HttpDownloadFile \<Rightarrow> error option \<times> HttpDownloadFile" where
  "makeFile ev f =
     (case OpenFile ev (Path f @ ''/'' @ Name f) of
        Inl e \<Rightarrow> (Some e, f)
      | Inr fl \<Rightarrow>
          (case Seek ev (Path f @ ''/'' @ Name f) (Downloaded f) of
             Some e \<Rightarrow> (Some e, f)
           | None \<Rightarrow> (None, f\<lparr>file_f := Some fl\<rparr>)))"

text \<open>
  \<^verbatim>\<open>startDownloading\<close> and \<^verbatim>\<open>resumeDownloading\<close> return the error, the file and,
  when they reach \<^verbatim>\<open>go f.startDownload(resp)\<close>, the response handed to the new
  goroutine.
\<close>

definition startDownloading ::
  "env \<Rightarrow> HttpDownloadFile \<Rightarrow> error option \<times> HttpDownloadFile \<times> http_Response option" where
  "startDownloading ev f =
     (case makeRequest ev f of
        Inl e \<Rightarrow> (Some e, f, None)
      | Inr resp \<Rightarrow>
          (case parseResponse ev f resp of
             (Some e, f) \<Rightarrow> (Some e, f, None)
           | (None, f) \<Rightarrow>
               (case makeFile ev f of
                  (Some e, f) \<Rightarrow> (Some e, f, None)
                | (None, f) \<Rightarrow> (None, f\<lparr>status := StatusStarted\<rparr>, Some resp))))"

definition resumeDownloading ::
  "env \<Rightarrow> HttpDownloadFile \<Rightarrow> error option \<times> HttpDownloadFile \<times> http_Response option" where
  "resumeDownloading ev f =
     (if \<not> resumable f \<or> Downloaded f = 0 then startDownloading ev f
      else case makePartialRequest ev f of
        Inl e \<Rightarrow> (Some e, f, None)
      | Inr resp \<Rightarrow>
          (case parseResponse ev f resp of
             (Some e, f) \<Rightarrow> (Some e, f, None)
           | (None, f) \<Rightarrow>
               (case makeFile ev f of
                  (Some e, f) \<Rightarrow> (Some e, f, None)
                | (None, f) \<Rightarrow> (None, f\<lparr>status := StatusStarted\<rparr>, Some resp))))"

text \<open>
  \<^verbatim>\<open>NewHttpDownloadFile\<close>: the pointer returned (\<open>None\<close> for \<^verbatim>\<open>nil\<close>) and the
  error. The arguments are the fields read from the task and the fresh identifier.
\<close>

definition NewHttpDownloadFile ::
  "env \<Rightarrow> nat \<Rightarrow> string \<Rightarrow> int \<Rightarrow> string \<Rightarrow> HttpDownloadFile option \<times> error option" where
  "NewHttpDownloadFile ev uuid task_Path task_rateLimit u =
     (let downloadFile =
            \<lparr>Id_f = uuid, Name = [], Downloaded = 0, Total = 0, Path = task_Path, URL = u,
             err = None, status = StatusQueued, rateLimit = task_rateLimit, rateLimiter = None,
             resumable = False, partSize = 0, file_f = None, partial_f = False\<rparr>
      in case makeHeadRequest ev downloadFile of
           Inl e \<Rightarrow> (None, err (HttpDownloadFile_setError downloadFile (Some e)))
         | Inr resp \<Rightarrow>
             (case parseResponse ev downloadFile resp of
                (e, f) \<Rightarrow> (Some f, e)))"

text \<open>\<^verbatim>\<open>f.file.Write(b[:n])\<close>: the error and the file handle afterwards.\<close>

definition file_Write :: "os_File option \<Rightarrow> error option \<times> os_File option" where
  "file_Write fl =
     (case fl of
        None \<Rightarrow> (Some (OSErr ''invalid argument''), None)
      | Some [] \<Rightarrow> (None, Some [])
      | Some (w # ws) \<Rightarrow> (w, Some ws))"

text \<open>
  The loop of \<^verbatim>\<open>download\<close>, over the reads of the response body still to come and
  the \<^verbatim>\<open>length\<close> of the bound-length reader. The result is the error returned, the
  file, and whether \<^verbatim>\<open>f.task.onFileCompleted(f)\<close> was reached; the call itself is
  made by \<open>startDownload\<close> below, where the task is at hand. The result is \<open>None\<close>
  when the loop has not returned within the reads listed.
\<close>

definition download_Read ::
  "Limiter \<Rightarrow> int \<Rightarrow> src_read \<Rightarrow> read_result \<times> int" where
  "download_Read limiter len src =
     (case FixedLengthReader_Read len src of
        (res, len') \<Rightarrow> (RateLimitedIO_Read limiter res, len'))"

definition download_step ::
  "read_result \<Rightarrow> HttpDownloadFile \<Rightarrow> (error option \<times> HttpDownloadFile \<times> bool) + HttpDownloadFile" where
  "download_step res f =
     (case res of (n, e) \<Rightarrow>
        if errors_Is e EOF then Inl (None, f\<lparr>status := StatusCompleted\<rparr>, True)
        else if e \<noteq> None then Inl (e, f, False)
        else case file_Write (file_f f) of
               (Some we, fl) \<Rightarrow> Inl (Some we, f\<lparr>file_f := fl\<rparr>, False)
             | (None, fl) \<Rightarrow> Inr (f\<lparr>file_f := fl, Downloaded := Downloaded f + n\<rparr>))"

fun download_loop ::
  "Limiter \<Rightarrow> src_read list \<Rightarrow> int \<Rightarrow> HttpDownloadFile
     \<Rightarrow> (error option \<times> HttpDownloadFile \<times> bool) option" where
  "download_loop limiter [] len f =
     (if status f \<noteq> StatusStarted then Some (None, f, False) else None)"
| "download_loop limiter (src # srcs) len f =
     (if status f \<noteq> StatusStarted then Some (None, f, False)
      else case download_Read limiter len src of
             (res, len') \<Rightarrow>
               (case download_step res f of
                  Inl r \<Rightarrow> Some r
                | Inr f' \<Rightarrow> download_loop limiter srcs len' f'))"

definition download ::
  "HttpDownloadFile \<Rightarrow> http_Response \<Rightarrow> (error option \<times> HttpDownloadFile \<times> bool) option" where
  "download f resp =
     (let len = Total f - Downloaded f;
          limiter = NewSpeedLimiter (rateLimit f);
          f = f\<lparr>rateLimiter := Some limiter\<rparr>
      in download_loop limiter (Body resp) len f)"

section \<open>\<^verbatim>\<open>HttpDownloadTask\<close>\<close>

text \<open>
  The struct, without its context. \<open>Files\<close> holds the files themselves: a file is
  named by its index, and no file occurs twice.
\<close>

record HttpDownloadTask =
  Id_t :: nat
  Files :: "HttpDownloadFile list"
  Name_t :: string
  Downloaded_t :: int
  Total_t :: int
  Status :: Status
  Error :: "error option"
  Path_t :: string
  rateLimit_t :: int

text \<open>
  The interface \<^verbatim>\<open>DownloadTask\<close>, as the signatures of its methods over an
  implementing type \<open>'t\<close> with files of type \<open>'f\<close>: a method that only reads returns
  its result, a method that returns \<^verbatim>\<open>error\<close> returns the error and the receiver.
  \<^verbatim>\<open>DownloadTaskType\<close> is a string type.
\<close>

type_synonym DownloadTaskType = string

definition DownloadTaskTypeHTTP :: DownloadTaskType where "DownloadTaskTypeHTTP = ''HTTP''"
definition DownloadTaskTypeBT :: DownloadTaskType where "DownloadTaskTypeBT = ''BT''"

record ('t, 'f) DownloadTask =
  GetId :: "'t \<Rightarrow> nat"
  GetFiles :: "'t \<Rightarrow> 'f list"
  GetType :: "'t \<Rightarrow> DownloadTaskType"
  GetName :: "'t \<Rightarrow> string"
  GetDownloaded :: "'t \<Rightarrow> int"
  GetTotal :: "'t \<Rightarrow> int"
  GetStatus :: "'t \<Rightarrow> Status"
  GetError :: "'t \<Rightarrow> error option"
  GetPath :: "'t \<Rightarrow> string"
  Pause :: "'t \<Rightarrow> error option \<times> 't"
  Start :: "'t \<Rightarrow> error option \<times> 't"
  Stop :: "'t \<Rightarrow> error option \<times> 't"
  Delete :: "'t \<Rightarrow> error option \<times> 't"
  DeleteWithData :: "'t \<Rightarrow> error option \<times> 't"

text \<open>The result type of a method, as a value that can be compared.\<close>

definition result_type :: "('t \<Rightarrow> 'r::typerep) \<Rightarrow> typerep" where
  "result_type m = Typerep.typerep TYPE('r)"

text \<open>The accessors of \<^verbatim>\<open>HttpDownloadTask\<close> for its error and its path.\<close>

definition HttpDownloadTask_GetError :: "HttpDownloadTask \<Rightarrow> error option" where
  "HttpDownloadTask_GetError dt = Error dt"

definition HttpDownloadTask_GetPath :: "HttpDownloadTask \<Rightarrow> error option" where
  "HttpDownloadTask_GetPath dt = Error dt"

text \<open>The index at which the \<^verbatim>\<open>for\<close> loop of \<^verbatim>\<open>_start\<close> stops, if it does.\<close>

definition first_not_completed :: "HttpDownloadFile list \<Rightarrow> nat" where
  "first_not_completed fs = length (takeWhile (\<lambda>f. status f = StatusCompleted) fs)"

text \<open>
  \<^verbatim>\<open>_start\<close>: the error, the task, and the goroutine started, as the index of its
  file and the response it was given.
\<close>

definition HttpDownloadTask__start ::
  "env \<Rightarrow> HttpDownloadTask \<Rightarrow> error option \<times> HttpDownloadTask \<times> (nat \<times> http_Response) option" where
  "HttpDownloadTask__start ev dt =
     (let i = first_not_completed (Files dt) in
      if i < length (Files dt) then
        (case (if Status dt = StatusPaused then resumeDownloading ev (Files dt ! i)
               else startDownloading ev (Files dt ! i)) of
           (e, f, go) \<Rightarrow>
             (let dt = dt\<lparr>Files := (Files dt)[i := f]\<rparr>;
                  dt = (if e \<noteq> None then dt\<lparr>Status := StatusCompleted, Error := e\<rparr>
                        else dt\<lparr>Status := StatusStarted\<rparr>)
              in (e, dt, map_option (\<lambda>resp. (i, resp)) go)))
      else (None, dt\<lparr>Status := StatusCompleted\<rparr>, None))"

definition HttpDownloadTask_Start ::
  "env \<Rightarrow> HttpDownloadTask \<Rightarrow> error option \<times> HttpDownloadTask \<times> (nat \<times> http_Response) option" where
  "HttpDownloadTask_Start ev dt =
     (if Status dt \<noteq> StatusStarted \<and> Status dt \<noteq> StatusCompleted
      then HttpDownloadTask__start ev dt
      else (None, dt, None))"

definition onFileCompleted ::
  "env \<Rightarrow> HttpDownloadTask \<Rightarrow> HttpDownloadTask \<times> (nat \<times> http_Response) option" where
  "onFileCompleted ev dt = (case HttpDownloadTask__start ev dt of (e, dt', go) \<Rightarrow> (dt', go))"

text \<open>
  \<^verbatim>\<open>startDownload\<close>, the body of the goroutine of file \<open>i\<close>, run as one step: the
  loop, the callback into the task when the loop reached it, then \<^verbatim>\<open>setError\<close> on
  the value \<^verbatim>\<open>download\<close> returned. No operation of the loop panics on the values
  modelled, so the deferred \<^verbatim>\<open>recover\<close> finds nothing.
\<close>

definition startDownload ::
  "env \<Rightarrow> HttpDownloadTask \<Rightarrow> nat \<Rightarrow> http_Response
     \<Rightarrow> (error option \<times> HttpDownloadTask \<times> (nat \<times> http_Response) option) option" where
  "startDownload ev dt i resp =
     (case download (Files dt ! i) resp of
        None \<Rightarrow> None
      | Some (e, f, completed) \<Rightarrow>
          (let dt = dt\<lparr>Files := (Files dt)[i := f]\<rparr>;
               (dt, go) = (if completed then onFileCompleted ev dt else (dt, None));
               dt = dt\<lparr>Files := (Files dt)[i := HttpDownloadFile_setError (Files dt ! i) e]\<rparr>
           in Some (e, dt, go)))"

section \<open>Package \<^verbatim>\<open>main\<close>: \<^verbatim>\<open>HttpDownloadState\<close> and its reader stack\<close>

text \<open>
  The struct; \<open>file_s\<close> is the open file. The readers \<^verbatim>\<open>respReader\<close> and
  \<^verbatim>\<open>readerStack\<close> are represented by the state they read and write: the
  \<^verbatim>\<open>length\<close> of the bound-length reader and the struct itself.
\<close>

record HttpDownloadState =
  url :: string
  status_s :: main_Status
  err_s :: "error option"
  size_s :: int
  downloaded :: int
  resumable_s :: bool
  fileName :: string
  left_s :: int
  file_s :: "os_File option"
  paused :: bool

definition NewHttpDownloadState :: "string \<Rightarrow> HttpDownloadState" where
  "NewHttpDownloadState u =
     \<lparr>url = u, status_s = 0, err_s = None, size_s = 0, downloaded = 0, resumable_s = False,
      fileName = [], left_s = 0, file_s = None, paused = False\<rparr>"

definition HttpDownloadState_setError :: "HttpDownloadState \<Rightarrow> error option \<Rightarrow> HttpDownloadState" where
  "HttpDownloadState_setError s e =
     (let s = s\<lparr>err_s := e\<rparr> in
      if err_s s = None then s\<lparr>status_s := Completed\<rparr> else s\<lparr>status_s := Error_status\<rparr>)"

text \<open>
  \<^verbatim>\<open>Start\<close>, \<^verbatim>\<open>Stop\<close> and \<^verbatim>\<open>Pause\<close>. \<open>HttpDownloadState_Start\<close> also tells whether
  the call reached its \<^verbatim>\<open>go\<close> statement.
\<close>

definition HttpDownloadState_Start :: "HttpDownloadState \<Rightarrow> HttpDownloadState \<times> bool" where
  "HttpDownloadState_Start s =
     (if status_s s = Paused then (s\<lparr>status_s := Started, paused := False\<rparr>, False)
      else (s\<lparr>err_s := None, status_s := Started\<rparr>, True))"

definition HttpDownloadState_Stop :: "HttpDownloadState \<Rightarrow> HttpDownloadState" where
  "HttpDownloadState_Stop s = s\<lparr>status_s := Waiting\<rparr>"

definition HttpDownloadState_Pause :: "HttpDownloadState \<Rightarrow> HttpDownloadState" where
  "HttpDownloadState_Pause s = s\<lparr>status_s := Paused, paused := True\<rparr>"

text \<open>\<^verbatim>\<open>5*si.Mega\<close>, with \<^verbatim>\<open>Kilo = 1000.0\<close> and \<^verbatim>\<open>Mega = Kilo * Kilo\<close>.\<close>

definition si_Kilo :: int where "si_Kilo = 1000"
definition si_Mega :: int where "si_Mega = si_Kilo * si_Kilo"

text \<open>
  \<^verbatim>\<open>NewRateLimitedIO\<close> of package \<^verbatim>\<open>main\<close>: the limit is the finite
  \<^verbatim>\<open>rate.Limit(bytesPerSec)\<close>, the burst size is \<open>bytesPerSec\<close>.
\<close>

definition main_NewRateLimitedIO :: "int \<Rightarrow> Limiter" where
  "main_NewRateLimitedIO bytesPerSec = (False, bytesPerSec)"

text \<open>The callback that \<^verbatim>\<open>NewReaderStack\<close> gives to the \<^verbatim>\<open>CallbackReader\<close>.\<close>

definition ReaderStack_cb :: "int \<Rightarrow> HttpDownloadState \<Rightarrow> bool \<times> HttpDownloadState" where
  "ReaderStack_cb n s =
     (let s = s\<lparr>left_s := left_s s - n\<rparr>;
          s = s\<lparr>downloaded := downloaded s + n\<rparr>
      in (status_s s \<noteq> Waiting, s))"

text \<open>\<^verbatim>\<open>CallbackReader.Read\<close> over the result of the wrapped reader.\<close>

definition CallbackReader_Read ::
  "read_result \<Rightarrow> HttpDownloadState \<Rightarrow> read_result \<times> HttpDownloadState" where
  "CallbackReader_Read res s =
     (case res of
        (n, Some e) \<Rightarrow> ((n, Some e), s)
      | (n, None) \<Rightarrow>
          (case ReaderStack_cb n s of
             (False, s') \<Rightarrow> ((0, Some StopReadingErr), s')
           | (True, s') \<Rightarrow> ((n, None), s')))"

text \<open>
  \<^verbatim>\<open>ReaderStack.Read\<close>, that is \<^verbatim>\<open>PauseableReader.Read\<close> over the callback reader,
  the rate-limited reader and the bound-length reader. While \<^verbatim>\<open>paused\<close> is set the
  body is not read; otherwise the first read of \<open>body\<close> is consumed. \<open>None\<close> when a
  read of the body is needed and none is listed.
\<close>

definition ReaderStack_Read ::
  "src_read list \<Rightarrow> int \<Rightarrow> HttpDownloadState
     \<Rightarrow> (read_result \<times> src_read list \<times> int \<times> HttpDownloadState) option" where
  "ReaderStack_Read body len s =
     (if paused s then Some ((0, None), body, len, s)
      else case body of
        [] \<Rightarrow> None
      | src # body' \<Rightarrow>
          (case FixedLengthReader_Read len src of
             (res, len') \<Rightarrow>
               (case CallbackReader_Read
                       (RateLimitedIO_Read (main_NewRateLimitedIO (5 * si_Mega)) res) s of
                  (res', s') \<Rightarrow> Some (res', body', len', s'))))"

text \<open>
  Calls made on the state by other goroutines while the copy runs. A call takes
  effect between two reads; a goroutine that such a \<^verbatim>\<open>Start\<close> would launch is not
  followed.
\<close>

datatype control = CallStart | CallStop | CallPause

fun apply_control :: "control \<Rightarrow> HttpDownloadState \<Rightarrow> HttpDownloadState" where
  "apply_control CallStart s = fst (HttpDownloadState_Start s)"
| "apply_control CallStop s = HttpDownloadState_Stop s"
| "apply_control CallPause s = HttpDownloadState_Pause s"

text \<open>
  \<^verbatim>\<open>io.Copy(s.file, s.respReader)\<close>, the generic loop of \<^verbatim>\<open>io.copyBuffer\<close>. Each
  element of the first argument is one iteration: the calls of other goroutines
  that take effect before its read, and the outcome of its write to the file if it
  writes. The result is the error of \<^verbatim>\<open>io.Copy\<close> with the state, or \<open>None\<close> when the
  loop has not returned within the iterations and reads listed.
\<close>

fun io_Copy ::
  "(control list \<times> error option) list \<Rightarrow> src_read list \<Rightarrow> int \<Rightarrow> HttpDownloadState
     \<Rightarrow> (error option \<times> HttpDownloadState) option" where
  "io_Copy [] body len s = None"
| "io_Copy ((cs, ew) # its) body len s =
     (case ReaderStack_Read body len (fold apply_control cs s) of
        None \<Rightarrow> None
      | Some ((nr, er), body', len', s') \<Rightarrow>
          if nr > 0 \<and> ew \<noteq> None then Some (ew, s')
          else if er \<noteq> None then Some ((if er \<noteq> Some EOF then er else None), s')
          else io_Copy its body' len' s')"

definition HttpDownloadState_makeRequest :: "env \<Rightarrow> http_Request \<Rightarrow> error + http_Response" where
  "HttpDownloadState_makeRequest ev req =
     (case Do ev req of
        Inl e \<Rightarrow> Inl e
      | Inr resp \<Rightarrow>
          if StatusCode resp < 200 \<or> StatusCode resp > 299
          then Inl (InvalidStatusCode (StatusCode resp))
          else Inr resp)"

text \<open>
  \<^verbatim>\<open>startDownload\<close> of package \<^verbatim>\<open>main\<close>: the error, the state and the body that
  \<^verbatim>\<open>makeRequest\<close> stored in \<^verbatim>\<open>respReader\<close>.
\<close>

definition HttpDownloadState_startDownload ::
  "env \<Rightarrow> HttpDownloadState \<Rightarrow> http_Request \<Rightarrow> error option \<times> HttpDownloadState \<times> src_read list" where
  "HttpDownloadState_startDownload ev s req =
     (case HttpDownloadState_makeRequest ev req of
        Inl e \<Rightarrow> (Some e, s, [])
      | Inr resp \<Rightarrow>
          (let s = (if ContentDisposition resp \<noteq> []
                    then (case ParseMediaType ev (ContentDisposition resp) of
                            Some filename \<Rightarrow> s\<lparr>fileName := filename\<rparr>
                          | None \<Rightarrow> s)
                    else s);
               named = (if fileName s = []
                        then (case url_Parse_Base ev (url s) of
                                Inl e \<Rightarrow> Inl (UrlParseErr e)
                              | Inr base \<Rightarrow> Inr (s\<lparr>fileName := base\<rparr>))
                        else Inr s)
           in case named of
                Inl e \<Rightarrow> (Some e, s, Body resp)
              | Inr s \<Rightarrow>
                  (let s = s\<lparr>size_s := ContentLength resp\<rparr>;
                       s = s\<lparr>downloaded := 0\<rparr>;
                       s = s\<lparr>left_s := size_s s\<rparr>
                   in case OpenFile ev (fileName s) of
                        Inl e \<Rightarrow> (Some e, s, Body resp)
                      | Inr fl \<Rightarrow> (None, s\<lparr>file_s := Some fl\<rparr>, Body resp))))"

text \<open>
  \<^verbatim>\<open>download\<close> of package \<^verbatim>\<open>main\<close>. Nothing in the package sets \<^verbatim>\<open>resumable\<close>, so
  \<^verbatim>\<open>resumeDownloading\<close> is never entered; it is the parameter \<open>resume\<close>.
\<close>

definition HttpDownloadState_download ::
  "env \<Rightarrow> (HttpDownloadState \<Rightarrow> http_Request \<Rightarrow> error option \<times> HttpDownloadState \<times> src_read list)
     \<Rightarrow> (control list \<times> error option) list \<Rightarrow> HttpDownloadState
     \<Rightarrow> (error option \<times> HttpDownloadState) option" where
  "HttpDownloadState_download ev resume its s =
     (case NewRequest ev (url s) of
        Some e \<Rightarrow> Some (Some e, s)
      | None \<Rightarrow>
          (let req = \<lparr>Method = ''GET'', ReqURL = url s, Range = None\<rparr> in
           case (if resumable_s s then resume s req
                 else HttpDownloadState_startDownload ev s req) of
             (Some e, s, body) \<Rightarrow> Some (Some e, s)
           | (None, s, body) \<Rightarrow>
               (case io_Copy its body (left_s s) s of
                  None \<Rightarrow> None
                | Some (Some e, s) \<Rightarrow> Some (Some e, HttpDownloadState_setError s (Some e))
                | Some (None, s) \<Rightarrow> Some (None, s\<lparr>err_s := None, status_s := Completed\<rparr>))))"

text \<open>
  The goroutine that \<^verbatim>\<open>Start\<close> launches: \<^verbatim>\<open>download\<close>, \<^verbatim>\<open>setError\<close> on its error,
  then the deferred function, in which \<^verbatim>\<open>recover()\<close> returns \<^verbatim>\<open>nil\<close> as nothing
  has panicked.
\<close>

definition Start_goroutine ::
  "env \<Rightarrow> (HttpDownloadState \<Rightarrow> http_Request \<Rightarrow> error option \<times> HttpDownloadState \<times> src_read list)
     \<Rightarrow> (control list \<times> error option) list \<Rightarrow> HttpDownloadState
     \<Rightarrow> HttpDownloadState option" where
  "Start_goroutine ev resume its s =
     (case HttpDownloadState_download ev resume its s of
        None \<Rightarrow> None
      | Some (e, s) \<Rightarrow>
          (let s = (if e \<noteq> None then HttpDownloadState_setError s e else s)
           in Some (HttpDownloadState_setError s None)))"

section \<open>Concrete transfers\<close>

text \<open>
  A server that answers every request with status 206, a content length of 10, the
  file name \<^verbatim>\<open>a.bin\<close> and a body delivered by one read of 10 bytes; every file
  operation succeeds.
\<close>

definition resp_206_ten :: http_Response where
  "resp_206_ten =
     \<lparr>StatusCode = 206, ContentLength = 10, ContentRange = ''bytes 0-9/10'',
      ContentDisposition = ''attachment; filename=a.bin'', AcceptRanges = ''bytes'',
      Body = [(10, None)]\<rparr>"

definition env_ten :: env where
  "env_ten =
     \<lparr>NewRequest = (\<lambda>u. None),
      Do = (\<lambda>req. Inr resp_206_ten),
      ParseMediaType = (\<lambda>cd. if cd = ''attachment; filename=a.bin'' then Some ''a.bin'' else None),
      url_Parse_Base = (\<lambda>u. Inr ''a.bin''),
      OpenFile = (\<lambda>p. Inr []),
      Seek = (\<lambda>p off. None)\<rparr>"

text \<open>A network on which every request fails.\<close>

definition env_refused :: env where
  "env_refused =
     \<lparr>NewRequest = (\<lambda>u. None),
      Do = (\<lambda>req. Inl (NetErr ''connection refused'')),
      ParseMediaType = (\<lambda>cd. None),
      url_Parse_Base = (\<lambda>u. Inr ''a.bin''),
      OpenFile = (\<lambda>p. Inr []),
      Seek = (\<lambda>p off. None)\<rparr>"

text \<open>
  A server that honours \<^verbatim>\<open>Range: bytes=500-\<close> on a resource of 1234 bytes with
  status 206 and the remaining 734 bytes, and refuses every other request.
\<close>

definition resp_206_from_500 :: http_Response where
  "resp_206_from_500 =
     \<lparr>StatusCode = 206, ContentLength = 734, ContentRange = ''bytes 500-1233/1234'',
      ContentDisposition = [], AcceptRanges = ''bytes'', Body = [(734, None)]\<rparr>"

definition env_range :: env where
  "env_range =
     \<lparr>NewRequest = (\<lambda>u. None),
      Do = (\<lambda>req. if Method req = ''GET'' \<and> Range req = Some 500
                   then Inr resp_206_from_500
                   else Inl (NetErr ''connection refused'')),
      ParseMediaType = (\<lambda>cd. None),
      url_Parse_Base = (\<lambda>u. Inr ''a.bin''),
      OpenFile = (\<lambda>p. Inr []),
      Seek = (\<lambda>p off. None)\<rparr>"

text \<open>
  The file that \<^verbatim>\<open>NewHttpDownloadFile\<close> returns on that server, and the same file
  after 500 of 1234 bytes.
\<close>

definition file_queued :: HttpDownloadFile where
  "file_queued =
     \<lparr>Id_f = 1, Name = ''a.bin'', Downloaded = 0, Total = 10, Path = ''/tmp'',
      URL = ''http://host/a.bin'', err = None, status = StatusQueued, rateLimit = 0,
      rateLimiter = None, resumable = True, partSize = 10, file_f = None,
      partial_f = False\<rparr>"

definition file_half :: HttpDownloadFile where
  "file_half = file_queued\<lparr>Downloaded := 500, Total := 1234, partSize := 1234\<rparr>"

definition task_queued :: HttpDownloadTask where
  "task_queued =
     \<lparr>Id_t = 7, Files = [file_queued, file_queued\<lparr>Id_f := 2\<rparr>], Name_t = ''t'',
      Downloaded_t = 0, Total_t = 0, Status = StatusQueued, Error = None,
      Path_t = ''/tmp'', rateLimit_t = 0\<rparr>"

definition task_single :: HttpDownloadTask where
  "task_single = task_queued\<lparr>Files := [file_queued]\<rparr>"

text \<open>
  A server for package \<^verbatim>\<open>main\<close>: status 200, 300 bytes, delivered by reads of 100
  bytes.
\<close>

definition env_main :: env where
  "env_main =
     \<lparr>NewRequest = (\<lambda>u. None),
      Do = (\<lambda>req. Inr \<lparr>StatusCode = 200, ContentLength = 300, ContentRange = [],
                         ContentDisposition = [], AcceptRanges = ''bytes'',
                         Body = [(100, None), (100, None), (100, None)]\<rparr>),
      ParseMediaType = (\<lambda>cd. None),
      url_Parse_Base = (\<lambda>u. Inr ''a.bin''),
      OpenFile = (\<lambda>p. Inr []),
      Seek = (\<lambda>p off. None)\<rparr>"

definition state_started :: HttpDownloadState where
  "state_started = fst (HttpDownloadState_Start (NewHttpDownloadState ''http://host/a.bin''))"

text \<open>The same server, with a body that breaks after 4 bytes.\<close>

definition resp_206_broken :: http_Response where
  "resp_206_broken = resp_206_ten\<lparr>Body := [(4, None), (0, Some (NetErr ''connection reset''))]\<rparr>"

definition env_broken :: env where
  "env_broken = env_ten\<lparr>Do := (\<lambda>req. Inr resp_206_broken)\<rparr>"

text \<open>
  The single-file task once its file is started on either server, and once the
  goroutine of the file has met the broken body.
\<close>

definition task_running :: HttpDownloadTask where
  "task_running =
     task_single\<lparr>Files := [file_queued\<lparr>file_f := Some [], status := StatusStarted\<rparr>],
                 Status := StatusStarted\<rparr>"

definition file_failed :: HttpDownloadFile where
  "file_failed =
     file_queued\<lparr>Downloaded := 4, err := Some (NetErr ''connection reset''),
                 status := StatusFailed, rateLimiter := Some (True, 0), file_f := Some []\<rparr>"

definition task_failed :: HttpDownloadTask where
  "task_failed = task_single\<lparr>Files := [file_failed], Status := StatusStarted\<rparr>"

section \<open>Status values\<close>

text \<open>
  Claim C1 asks that every status name has a value of its own, in particular that
  Paused and Completed differ. The six string constants of package \<^verbatim>\<open>downloads\<close>
  are pairwise distinct, but in package \<^verbatim>\<open>main\<close> the two variables \<^verbatim>\<open>Paused\<close>
  and \<^verbatim>\<open>Completed\<close> are both 2, so that \<^verbatim>\<open>Start\<close> takes a completed transfer
  for a paused one.
\<close>

theorem main_Paused_is_Completed:
  "Paused = Completed \<and>
   HttpDownloadState_Start (s\<lparr>status_s := Completed\<rparr>) =
     (s\<lparr>status_s := Started, paused := False\<rparr>, False) \<and>
   distinct [Waiting, Started, Paused, Error_status] \<and>
   distinct [StatusQueued, StatusStarted, StatusPaused, StatusStopped, StatusCompleted,
             StatusFailed]"
  by (simp add: Paused_def Completed_def Waiting_def Started_def Error_status_def
      HttpDownloadState_Start_def StatusQueued_def StatusStarted_def StatusPaused_def
      StatusStopped_def StatusCompleted_def StatusFailed_def)

section \<open>\<^verbatim>\<open>parseContentRange\<close>\<close>

text \<open>
  Claim C7 asks that \<^verbatim>\<open>bytes 0-499/1234\<close> parses to 0, 499 and 1234, that
  \<^verbatim>\<open>not-a-range\<close> is a parse error, and that \<^verbatim>\<open>bytes */1234\<close> parses to a range
  end of \<open>-1\<close> and a size of 1234. The first two hold. For the third, the map built
  by \<^verbatim>\<open>reGetNamedGroups\<close> has an entry for every named group, so the branches
  that assign \<open>-1\<close> are never taken: the wildcard range gives the empty string to
  \<^verbatim>\<open>strconv.Atoi\<close> and the range end is 0.
\<close>

theorem parseContentRange_wildcard:
  "parseContentRange ''bytes 0-499/1234'' =
     Inr \<lparr>rangeStart = 0, rangeEnd = 499, size_r = 1234\<rparr> \<and>
   parseContentRange ''not-a-range'' = Inl (ErrorsNew ''invalid content-range format'') \<and>
   parseContentRange ''bytes */1234'' = Inr \<lparr>rangeStart = 0, rangeEnd = 0, size_r = 1234\<rparr>"
  by code_simp

section \<open>The bound-length reader\<close>

lemma Read_left_nonneg: "0 \<le> snd (FixedLengthReader_Read len src)"
  by (simp add: FixedLengthReader_Read_def Let_def)

lemma Read_count:
  "fst (fst (FixedLengthReader_Read len src)) = len - snd (FixedLengthReader_Read len src)"
  by (simp add: FixedLengthReader_Read_def Let_def)

lemma Read_truncated:
  "snd src = Some EOF \<Longrightarrow> 0 < snd (FixedLengthReader_Read len src) \<Longrightarrow>
   snd (fst (FixedLengthReader_Read len src)) = Some ErrUnexpectedEOF"
  by (auto simp add: FixedLengthReader_Read_def Let_def errors_Is_def split: if_splits)

lemma reads_take:
  "take k (FixedLengthReader_reads len srcs) = FixedLengthReader_reads len (take k srcs)"
proof (induction srcs arbitrary: len k)
  case Nil
  then show ?case by simp
next
  case (Cons a srcs)
  then show ?case by (cases k) (auto split: prod.splits)
qed

lemma reads_sum:
  "sum_list (map fst (FixedLengthReader_reads len srcs)) = len - FixedLengthReader_left len srcs"
proof (induction srcs arbitrary: len)
  case Nil
  then show ?case by simp
next
  case (Cons a srcs)
  have "fst (fst (FixedLengthReader_Read len a)) = len - snd (FixedLengthReader_Read len a)"
    by (rule Read_count)
  with Cons show ?case by (auto split: prod.splits)
qed

lemma left_nonneg:
  "srcs \<noteq> [] \<or> 0 \<le> len \<Longrightarrow> 0 \<le> FixedLengthReader_left len srcs"
proof (induction srcs arbitrary: len)
  case Nil
  then show ?case by simp
next
  case (Cons a srcs)
  show ?case
    using Cons.IH [of "snd (FixedLengthReader_Read len a)"] Read_left_nonneg [of len a]
    by simp
qed

lemma reads_nth:
  "k < length srcs \<Longrightarrow>
   FixedLengthReader_reads len srcs ! k =
     fst (FixedLengthReader_Read (FixedLengthReader_left len (take k srcs)) (srcs ! k))"
proof (induction srcs arbitrary: len k)
  case Nil
  then show ?case by simp
next
  case (Cons a srcs)
  then show ?case by (cases k) (auto split: prod.splits)
qed

lemma left_take_Suc:
  "k < length srcs \<Longrightarrow>
   FixedLengthReader_left len (take (Suc k) srcs) =
     snd (FixedLengthReader_Read (FixedLengthReader_left len (take k srcs)) (srcs ! k))"
proof (induction srcs arbitrary: len k)
  case Nil
  then show ?case by simp
next
  case (Cons a srcs)
  then show ?case by (cases k) (auto split: prod.splits)
qed

text \<open>
  Claim C8: for every length \<open>L\<close> and every sequence \<open>srcs\<close> of results of the
  wrapped reader, after each read \<open>k\<close> the byte counts reported so far sum to at
  most \<open>L\<close>; and when the wrapped reader signals \<open>EOF\<close> on a read after which that
  sum is still below \<open>L\<close>, the read reports \<open>ErrUnexpectedEOF\<close>, not \<open>EOF\<close>.
\<close>

theorem FixedLengthReader_bound:
  assumes "k < length srcs"
  shows "sum_list (map fst (take (Suc k) (FixedLengthReader_reads L srcs))) \<le> L \<and>
         (snd (srcs ! k) = Some EOF \<and>
          sum_list (map fst (take (Suc k) (FixedLengthReader_reads L srcs))) < L \<longrightarrow>
            snd (FixedLengthReader_reads L srcs ! k) = Some ErrUnexpectedEOF \<and>
            snd (FixedLengthReader_reads L srcs ! k) \<noteq> Some EOF)"
proof -
  let ?pre = "take (Suc k) srcs"
  let ?sum = "sum_list (map fst (take (Suc k) (FixedLengthReader_reads L srcs)))"
  have ne: "?pre \<noteq> []"
    using assms by (cases srcs) auto
  have s: "?sum = L - FixedLengthReader_left L ?pre"
    by (simp only: reads_take reads_sum)
  have "0 \<le> FixedLengthReader_left L ?pre"
    using ne by (intro left_nonneg) simp
  with s have bound: "?sum \<le> L"
    by simp
  have trunc: "snd (FixedLengthReader_reads L srcs ! k) = Some ErrUnexpectedEOF"
    if e: "snd (srcs ! k) = Some EOF" and lt: "?sum < L"
  proof -
    from lt s have "0 < FixedLengthReader_left L ?pre"
      by simp
    then have "0 < snd (FixedLengthReader_Read (FixedLengthReader_left L (take k srcs)) (srcs ! k))"
      using left_take_Suc [OF assms] by simp
    from Read_truncated [OF e this] show ?thesis
      using reads_nth [OF assms] by simp
  qed
  from bound trunc show ?thesis
    by simp
qed

theorem FixedLengthReader_bound_witness:
  "(1::nat) < length [(4, None), (3, Some EOF)] \<and>
   sum_list (map fst (take 2 (FixedLengthReader_reads 10 [(4, None), (3, Some EOF)]))) = 7 \<and>
   snd ([(4::nat, None), (3, Some EOF)] ! 1) = Some EOF \<and>
   snd (FixedLengthReader_reads 10 [(4, None), (3, Some EOF)] ! 1) = Some ErrUnexpectedEOF"
  using FixedLengthReader_bound [of 1 "[(4, None), (3, Some EOF)]" 10]
  by (simp add: FixedLengthReader_Read_def errors_Is_def)

section \<open>\<^verbatim>\<open>HttpDownloadFile\<close>\<close>

text \<open>
  Claim C4 asks that a resumed transfer that is answered with status 206 goes on
  with its downloaded count preserved. The request does carry the offset 500, and
  \<^verbatim>\<open>parseResponse\<close> does refuse every status other than 206; but it handles the
  206 answer with the code for a fresh transfer: a file with 500 of 1234 bytes comes
  out of \<^verbatim>\<open>resumeDownloading\<close> with \<open>Downloaded = 0\<close> and \<open>Total = 734\<close>, its
  destination positioned at offset 0.
\<close>

theorem resume_resets_Downloaded:
  "resumable file_half \<and> Downloaded file_half = 500 \<and>
   resumeDownloading env_range file_half =
     (None,
      file_half\<lparr>Downloaded := 0, Total := 734, partSize := 734, file_f := Some [],
                status := StatusStarted\<rparr>,
      Some resp_206_from_500)"
  by code_simp

theorem resume_resets_Downloaded_witness:
  "Downloaded file_half = 500 \<and>
   Downloaded (fst (snd (resumeDownloading env_range file_half))) = 0"
  using resume_resets_Downloaded by simp

text \<open>
  Claim C9 asks that every failure of negotiate, start or resume leaves the file
  Failed with the error attached. Only the failure of the HEAD request reaches
  \<^verbatim>\<open>setError\<close>, on a file that is then dropped; when the request of
  \<^verbatim>\<open>startDownloading\<close> is refused the error is returned and the file is as before,
  Queued and without an error.
\<close>

theorem start_failure_leaves_file:
  "startDownloading env_refused file_queued =
     (Some (NetErr ''connection refused''), file_queued, None) \<and>
   status file_queued = StatusQueued \<and> err file_queued = None"
  by code_simp

text \<open>
  Claim C3 asks that a Completed file has no error and, its total being known, as
  many bytes downloaded as its total. A file of 10 bytes whose body arrives in one
  read is started by the task and then run: the bound-length reader returns the 10
  bytes together with \<open>EOF\<close>, the loop marks the file Completed without writing or
  counting them, and the file ends Completed, without error, with 0 of 10 bytes.
\<close>

theorem Completed_without_last_read:
  "HttpDownloadTask_Start env_ten task_single = (None, task_running, Some (0, resp_206_ten)) \<and>
   startDownload env_ten task_running 0 resp_206_ten =
     Some (None,
           task_single
             \<lparr>Files :=
                [\<lparr>Id_f = 1, Name = ''a.bin'', Downloaded = 0, Total = 10, Path = ''/tmp'',
                  URL = ''http://host/a.bin'', err = None, status = StatusCompleted,
                  rateLimit = 0, rateLimiter = Some (True, 0), resumable = True,
                  partSize = 10, file_f = Some [], partial_f = False\<rparr>],
              Status := StatusCompleted\<rparr>,
           None)"
  by code_simp

section \<open>\<^verbatim>\<open>HttpDownloadTask\<close>\<close>

text \<open>
  Claim C5 asks that the task becomes Failed, not Completed, when the file it
  starts fails. \<^verbatim>\<open>Start\<close> on a queued task of two queued files, with the request of
  the first refused: the error is recorded, nothing is launched and the files are
  untouched, but the status assigned is \<open>StatusCompleted\<close>.
\<close>

theorem task_Completed_on_failure:
  "HttpDownloadTask_Start env_refused task_queued =
     (Some (NetErr ''connection refused''),
      task_queued\<lparr>Status := StatusCompleted, Error := Some (NetErr ''connection refused'')\<rparr>,
      None)"
  by code_simp

text \<open>
  Claim C10: \<^verbatim>\<open>GetPath\<close> of a task returns the field \<open>Error\<close>, as \<^verbatim>\<open>GetError\<close>
  does, whatever the path of the task is, so it returns \<^verbatim>\<open>nil\<close> when no error has
  been recorded; and its result type is not the result type of \<^verbatim>\<open>GetPath\<close> in the
  interface \<^verbatim>\<open>DownloadTask\<close>, which is a string, whereas the result type of
  \<^verbatim>\<open>GetError\<close> is that of the interface.
\<close>

theorem GetPath_returns_Error:
  fixes iface :: "(HttpDownloadTask, 'f) DownloadTask"
  shows
  "HttpDownloadTask_GetPath dt = (Error dt :: error option) \<and>
   HttpDownloadTask_GetPath dt = HttpDownloadTask_GetError dt \<and>
   HttpDownloadTask_GetPath (dt\<lparr>Path_t := p\<rparr>) = HttpDownloadTask_GetPath dt \<and>
   HttpDownloadTask_GetPath (dt\<lparr>Error := None, Path_t := p\<rparr>) = None \<and>
   result_type HttpDownloadTask_GetPath \<noteq> result_type (GetPath iface) \<and>
   result_type (GetPath iface) = Typerep.typerep TYPE(string) \<and>
   result_type HttpDownloadTask_GetPath = Typerep.typerep TYPE(error option) \<and>
   result_type HttpDownloadTask_GetError = result_type (GetError iface)"
  by (simp add: HttpDownloadTask_GetPath_def HttpDownloadTask_GetError_def result_type_def
      typerep_option_def typerep_list_def)

section \<open>Package \<^verbatim>\<open>main\<close>: stopping a transfer\<close>

text \<open>
  Claim C6 asks that a transfer ended by \<^verbatim>\<open>Stop\<close> is not classified as an error.
  The callback reader does answer with its own sentinel, which is neither \<open>EOF\<close>
  nor \<open>ErrUnexpectedEOF\<close>; but \<^verbatim>\<open>download\<close> passes whatever \<^verbatim>\<open>io.Copy\<close> returns
  to \<^verbatim>\<open>setError\<close>. A transfer of 300 bytes stopped after its first read: \<^verbatim>\<open>download\<close>
  returns the sentinel with the state in status Error and the sentinel as its
  error; the deferred function of the goroutine then overwrites both, and the
  stopped transfer ends in the value shared by Completed and Paused.
\<close>

theorem stop_recorded_as_error:
  "HttpDownloadState_download env_main resume [([], None), ([CallStop], None)] state_started =
     Some (Some StopReadingErr,
           state_started\<lparr>size_s := 300, downloaded := 200, left_s := 100, fileName := ''a.bin'',
                         file_s := Some [], err_s := Some StopReadingErr,
                         status_s := Error_status\<rparr>) \<and>
   Start_goroutine env_main resume [([], None), ([CallStop], None)] state_started =
     Some (state_started\<lparr>size_s := 300, downloaded := 200, left_s := 100, fileName := ''a.bin'',
                         file_s := Some [], err_s := None, status_s := Completed\<rparr>) \<and>
   StopReadingErr \<noteq> EOF \<and> StopReadingErr \<noteq> ErrUnexpectedEOF"
  by code_simp

section \<open>The status of a file and its error\<close>

text \<open>
  Claim C2 asks that at every observation point a file is Failed exactly when its
  error is not \<^verbatim>\<open>nil\<close>. \<^verbatim>\<open>Start\<close> tests the status of the task before it issues
  the request and \<^verbatim>\<open>_start\<close> assigns it afterwards, and nothing is locked; and
  \<^verbatim>\<open>setError\<close> with \<^verbatim>\<open>nil\<close> clears the error and leaves the status. Two calls of
  \<^verbatim>\<open>Start\<close> on a queued task of one file made by the constructor, the second
  passing the test before the first has assigned the status: each runs \<^verbatim>\<open>_start\<close>
  and launches a goroutine on the file. The first goroutine meets a broken body and
  fails the file; the second then finds the file not started, returns \<^verbatim>\<open>nil\<close> from
  \<^verbatim>\<open>download\<close>, and \<^verbatim>\<open>setError\<close> leaves the file Failed with no error.
\<close>

theorem Failed_without_error:
  "NewHttpDownloadFile env_broken 1 ''/tmp'' 0 ''http://host/a.bin'' = (Some file_queued, None) \<and>
   Files task_single = [file_queued] \<and>
   Status task_single \<noteq> StatusStarted \<and> Status task_single \<noteq> StatusCompleted \<and>
   HttpDownloadTask__start env_broken task_single =
     (None, task_running, Some (0, resp_206_broken)) \<and>
   HttpDownloadTask__start env_broken task_running =
     (None, task_running, Some (0, resp_206_broken)) \<and>
   startDownload env_broken task_running 0 resp_206_broken =
     Some (Some (NetErr ''connection reset''), task_failed, None) \<and>
   startDownload env_broken task_failed 0 resp_206_broken =
     Some (None, task_failed\<lparr>Files := [file_failed\<lparr>err := None\<rparr>]\<rparr>, None) \<and>
   status (file_failed\<lparr>err := None\<rparr>) = StatusFailed \<and>
   err (file_failed\<lparr>err := None\<rparr>) = None \<and>
   HttpDownloadFile_setError (f\<lparr>status := StatusFailed\<rparr>) None =
     f\<lparr>status := StatusFailed, err := None\<rparr>"
  by code_simp

end
